theory Spec2Isabelle
  imports Main "HOL-Library.Word"
begin

section \<open>Gradient makers of caffe2/core/operator\_gradient.h\<close>

text \<open>
  A shallow embedding of \<^verbatim>\<open>caffe2/core/operator_gradient.h\<close>: the gradient wrapper, the
  gradient ops meta, the base class \<^verbatim>\<open>GradientMakerBase\<close> with its accessors, and the three
  built-in makers. Member names of the source end in an underscore (\<^verbatim>\<open>dense_\<close>,
  \<^verbatim>\<open>g_input_\<close>); an identifier cannot end so here, so the underscore is dropped.
  A member function that mutates the maker takes the maker and returns the pair of its
  outcome and the maker afterwards, so that what an exception leaves behind is a value.
\<close>

subsection \<open>Failures\<close>

text \<open>
  \<^item> \<open>EnforceNotMet msg\<close>: a failed \<^verbatim>\<open>CAFFE_ENFORCE(cond, args...)\<close>; \<open>msg\<close> is the
    concatenation of \<^verbatim>\<open>args\<close> (the caller's part of the exception text), empty when the
    macro is given the condition only.
  \<^item> \<open>OutOfRange\<close>: \<^verbatim>\<open>std::out_of_range\<close>, thrown by \<^verbatim>\<open>std::vector::at\<close>.
  \<^item> \<open>RepeatedFieldOutOfBounds\<close>: an index outside a repeated field of the protocol
    buffer (\<^verbatim>\<open>def_.input(i)\<close>, \<^verbatim>\<open>def_.output(i)\<close>); the generated accessor has no
    check of its own in a release build, so this value stands for a read out of bounds.
  \<^item> \<open>NotImplemented\<close>: \<^verbatim>\<open>CAFFE_NOT_IMPLEMENTED\<close>.
  \<^item> \<open>CheckFailed\<close>: a failed \<^verbatim>\<open>CHECK\<close>.
\<close>

datatype error =
    EnforceNotMet string
  | OutOfRange
  | RepeatedFieldOutOfBounds
  | NotImplemented
  | CheckFailed

subsection \<open>Data\<close>

record GradientWrapper =
  dense :: string
  indices :: string
  "values" :: string

definition IsDense :: "GradientWrapper \<Rightarrow> bool" where
  "IsDense w = (length (dense w) \<noteq> 0)"

definition IsSparse :: "GradientWrapper \<Rightarrow> bool" where
  "IsSparse w = (length (indices w) \<noteq> 0 \<or> length (values w) \<noteq> 0)"

definition IsEmpty :: "GradientWrapper \<Rightarrow> bool" where
  "IsEmpty w = (\<not> IsDense w \<and> \<not> IsSparse w)"

text \<open>
  The fields of the protocol buffer \<^verbatim>\<open>OperatorDef\<close> that the header reads or writes:
  \<^verbatim>\<open>type()\<close>, \<^verbatim>\<open>input()\<close>, \<^verbatim>\<open>output()\<close> and \<^verbatim>\<open>is_gradient_op\<close>. The first three
  carry the prefix \<open>op_\<close> here (\<open>output\<close> is a reserved word of the theory language).
\<close>

record OperatorDef =
  op_type :: string
  op_input :: "string list"
  op_output :: "string list"
  is_gradient_op :: bool

record GradientOpsMeta =
  ops :: "OperatorDef list"
  g_input :: "GradientWrapper list"

record GradientMaker =
  "def" :: OperatorDef
  g_output :: "GradientWrapper list"
  g_input :: "GradientWrapper list"

text \<open>The value-initialised wrapper: three empty strings.\<close>

definition empty_wrapper :: GradientWrapper where
  "empty_wrapper = \<lparr>dense = [], indices = [], values = []\<rparr>"

text \<open>
  The constructor: \<^verbatim>\<open>def_(def), g_output_(g_output), g_input_(def.input_size())\<close>.
\<close>

definition GradientMakerBase :: "OperatorDef \<Rightarrow> GradientWrapper list \<Rightarrow> GradientMaker" where
  "GradientMakerBase d g =
     \<lparr>def = d, g_output = g, g_input = replicate (length (op_input d)) empty_wrapper\<rparr>"

subsection \<open>Indices\<close>

text \<open>
  Every accessor takes a C \<^verbatim>\<open>int\<close>. \<^verbatim>\<open>std::vector::at\<close> takes a \<^verbatim>\<open>size_t\<close>: the
  \<^verbatim>\<open>int\<close> is converted modulo \<open>2 ^ 64\<close>, so a negative index becomes a huge one, and
  \<^verbatim>\<open>at\<close> throws when the converted index is not below the size.
\<close>

type_synonym cint = "32 word"

definition size_t :: "cint \<Rightarrow> nat" where
  "size_t i = nat (sint i mod 2 ^ 64)"

definition vector_at :: "'a list \<Rightarrow> cint \<Rightarrow> error + 'a" where
  "vector_at v i = (if size_t i < length v then Inr (v ! size_t i) else Inl OutOfRange)"

text \<open>
  No vector is longer than \<^verbatim>\<open>max_size()\<close>, which is at most \<^verbatim>\<open>PTRDIFF_MAX\<close>.
\<close>

definition vector_max_size :: nat where
  "vector_max_size = 2 ^ 63 - 1"

definition repeated_get :: "string list \<Rightarrow> cint \<Rightarrow> error + string" where
  "repeated_get xs i =
     (if 0 \<le> sint i \<and> sint i < int (length xs) then Inr (xs ! nat (sint i))
      else Inl RepeatedFieldOutOfBounds)"

subsection \<open>Gradient names\<close>

definition GradientName :: "string \<Rightarrow> string" where
  "GradientName name = name @ ''_grad''"

definition GradientSliceIndices :: "string \<Rightarrow> string" where
  "GradientSliceIndices name = name @ ''_grad_indices''"

definition GradientSliceValues :: "string \<Rightarrow> string" where
  "GradientSliceValues name = name @ ''_grad_values''"

text \<open>
  \<^verbatim>\<open>std::string::find(s)\<close>: the lowest position at which \<open>s\<close> occurs, counted from
  \<open>pos\<close>; \<open>None\<close> is \<^verbatim>\<open>npos\<close>.
\<close>

fun find_from :: "string \<Rightarrow> string \<Rightarrow> nat \<Rightarrow> nat option" where
  "find_from [] s pos = (if s = [] then Some pos else None)"
| "find_from (c # cs) s pos =
     (if take (length s) (c # cs) = s then Some pos else find_from cs s (Suc pos))"

definition find_str :: "string \<Rightarrow> string \<Rightarrow> nat option" where
  "find_str name s = find_from name s 0"

definition IsGradientBlob :: "string \<Rightarrow> bool" where
  "IsGradientBlob name =
     (length name > 5 \<and> find_str name ''_grad'' = Some (length name - 5))"

definition GradientNameToParam :: "string \<Rightarrow> error + string" where
  "GradientNameToParam name =
     (if IsGradientBlob name then Inr (take (length name - 5) name) else Inl CheckFailed)"

text \<open>
  \<^verbatim>\<open>MatchGradsToParams\<close>: the loop over the outputs, storing into a \<^verbatim>\<open>CaffeMap\<close>.
\<close>

definition MatchGradsToParams :: "OperatorDef \<Rightarrow> (string \<rightharpoonup> string)" where
  "MatchGradsToParams op =
     foldl (\<lambda>m out. if IsGradientBlob out then m(out \<mapsto> take (length out - 5) out) else m)
       Map.empty (op_output op)"

subsection \<open>Accessors\<close>

text \<open>
  \<^verbatim>\<open>I(i)\<close> and \<^verbatim>\<open>O(i)\<close>: the forward input and output names, range-checked. (\<open>O\<close> is
  the composition of relations in HOL, hence \<open>I_name\<close> and \<open>O_name\<close>.)
\<close>

definition I_name :: "GradientMaker \<Rightarrow> cint \<Rightarrow> error + string" where
  "I_name m i =
     (if 0 \<le> sint i \<and> sint i < int (length (op_input (def m)))
      then repeated_get (op_input (def m)) i
      else Inl (EnforceNotMet []))"

definition O_name :: "GradientMaker \<Rightarrow> cint \<Rightarrow> error + string" where
  "O_name m i =
     (if 0 \<le> sint i \<and> sint i < int (length (op_output (def m)))
      then repeated_get (op_output (def m)) i
      else Inl (EnforceNotMet []))"

text \<open>
  \<^verbatim>\<open>GI\<close>, \<^verbatim>\<open>GI_I\<close>, \<^verbatim>\<open>GI_V\<close>: \<^verbatim>\<open>g_input_.at(i)\<close> is evaluated first, inside the
  condition. The input's name \<^verbatim>\<open>def_.input(i)\<close> is read on both sides of the check (for
  the message when it fails, for the gradient name when it passes), so it is read once
  here, before the test. Nothing is written before the last throwing point.
\<close>

definition GI :: "GradientMaker \<Rightarrow> cint \<Rightarrow> (error + string) \<times> GradientMaker" where
  "GI m i =
     (case vector_at (g_input m) i of
        Inl e \<Rightarrow> (Inl e, m)
      | Inr w \<Rightarrow>
          (case repeated_get (op_input (def m)) i of
             Inl e \<Rightarrow> (Inl e, m)
           | Inr n \<Rightarrow>
               if \<not> IsSparse w
               then (Inr (GradientName n),
                     m\<lparr>g_input := (g_input m)[size_t i := w\<lparr>dense := GradientName n\<rparr>]\<rparr>)
               else (Inl (EnforceNotMet (''Input '' @ n @ '' already set to sparse.'')), m)))"

definition GI_I :: "GradientMaker \<Rightarrow> cint \<Rightarrow> (error + string) \<times> GradientMaker" where
  "GI_I m i =
     (case vector_at (g_input m) i of
        Inl e \<Rightarrow> (Inl e, m)
      | Inr w \<Rightarrow>
          (case repeated_get (op_input (def m)) i of
             Inl e \<Rightarrow> (Inl e, m)
           | Inr n \<Rightarrow>
               if \<not> IsDense w
               then (Inr (GradientSliceIndices n),
                     m\<lparr>g_input := (g_input m)[size_t i := w\<lparr>indices := GradientSliceIndices n\<rparr>]\<rparr>)
               else (Inl (EnforceNotMet (''Input '' @ n @ '' already set to dense.'')), m)))"

definition GI_V :: "GradientMaker \<Rightarrow> cint \<Rightarrow> (error + string) \<times> GradientMaker" where
  "GI_V m i =
     (case vector_at (g_input m) i of
        Inl e \<Rightarrow> (Inl e, m)
      | Inr w \<Rightarrow>
          (case repeated_get (op_input (def m)) i of
             Inl e \<Rightarrow> (Inl e, m)
           | Inr n \<Rightarrow>
               if \<not> IsDense w
               then (Inr (GradientSliceValues n),
                     m\<lparr>g_input := (g_input m)[size_t i := w\<lparr>values := GradientSliceValues n\<rparr>]\<rparr>)
               else (Inl (EnforceNotMet (''Input '' @ n @ '' already set to dense.'')), m)))"

text \<open>
  \<^verbatim>\<open>GO\<close>, \<^verbatim>\<open>GO_I\<close>, \<^verbatim>\<open>GO_V\<close>: the output's name is read for the message only, after the
  check has failed.
\<close>

definition GO :: "GradientMaker \<Rightarrow> cint \<Rightarrow> error + string" where
  "GO m i =
     (case vector_at (g_output m) i of
        Inl e \<Rightarrow> Inl e
      | Inr w \<Rightarrow>
          if IsDense w then Inr (dense w)
          else (case repeated_get (op_output (def m)) i of
                  Inl e \<Rightarrow> Inl e
                | Inr n \<Rightarrow>
                    Inl (EnforceNotMet (''Gradient of output '' @ n @
                      (if IsSparse w then '' is sparse (expected dense).''
                       else '' is not provided!'')))))"

definition GO_I :: "GradientMaker \<Rightarrow> cint \<Rightarrow> error + string" where
  "GO_I m i =
     (case vector_at (g_output m) i of
        Inl e \<Rightarrow> Inl e
      | Inr w \<Rightarrow>
          if IsSparse w then Inr (indices w)
          else (case repeated_get (op_output (def m)) i of
                  Inl e \<Rightarrow> Inl e
                | Inr n \<Rightarrow>
                    Inl (EnforceNotMet (''Gradient of output '' @ n @
                      (if IsDense w then '' is dense (expected sparse).''
                       else '' is not provided!'')))))"

definition GO_V :: "GradientMaker \<Rightarrow> cint \<Rightarrow> error + string" where
  "GO_V m i =
     (case vector_at (g_output m) i of
        Inl e \<Rightarrow> Inl e
      | Inr w \<Rightarrow>
          if IsSparse w then Inr (values w)
          else (case repeated_get (op_output (def m)) i of
                  Inl e \<Rightarrow> Inl e
                | Inr n \<Rightarrow>
                    Inl (EnforceNotMet (''Gradient of output '' @ n @
                      (if IsDense w then '' is dense (expected sparse).''
                       else '' is not provided!'')))))"

definition GradOut :: "GradientMaker \<Rightarrow> cint \<Rightarrow> error + GradientWrapper" where
  "GradOut m i = vector_at (g_output m) i"

definition SetDense :: "GradientMaker \<Rightarrow> cint \<Rightarrow> string \<Rightarrow> (error + unit) \<times> GradientMaker" where
  "SetDense m i name =
     (case vector_at (g_input m) i of
        Inl e \<Rightarrow> (Inl e, m)
      | Inr w \<Rightarrow>
          if \<not> IsSparse w
          then (Inr (), m\<lparr>g_input := (g_input m)[size_t i := w\<lparr>dense := name\<rparr>]\<rparr>)
          else (case repeated_get (op_input (def m)) i of
                  Inl e \<Rightarrow> (Inl e, m)
                | Inr n \<Rightarrow>
                    (Inl (EnforceNotMet (''Input '' @ n @ '' already set to sparse.'')), m)))"

definition SetSparse ::
    "GradientMaker \<Rightarrow> cint \<Rightarrow> string \<Rightarrow> string \<Rightarrow> (error + unit) \<times> GradientMaker" where
  "SetSparse m i ind val =
     (case vector_at (g_input m) i of
        Inl e \<Rightarrow> (Inl e, m)
      | Inr w \<Rightarrow>
          if \<not> IsDense w
          then (Inr (), m\<lparr>g_input := (g_input m)[size_t i := w\<lparr>indices := ind, values := val\<rparr>]\<rparr>)
          else (case repeated_get (op_input (def m)) i of
                  Inl e \<Rightarrow> (Inl e, m)
                | Inr n \<Rightarrow>
                    (Inl (EnforceNotMet (''Input '' @ n @ '' already set to dense.'')), m)))"

subsection \<open>Sequences of calls\<close>

text \<open>
  The calls that write the input wrappers. \<open>do_call\<close> is the maker after one call,
  whether the call returned or threw; \<open>run_calls\<close> is the maker after a sequence of
  calls made by a caller that may catch the exceptions and go on.
\<close>

datatype call =
    Call_GI cint
  | Call_GI_I cint
  | Call_GI_V cint
  | Call_SetDense cint string
  | Call_SetSparse cint string string

fun do_call :: "GradientMaker \<Rightarrow> call \<Rightarrow> GradientMaker" where
  "do_call m (Call_GI i) = snd (GI m i)"
| "do_call m (Call_GI_I i) = snd (GI_I m i)"
| "do_call m (Call_GI_V i) = snd (GI_V m i)"
| "do_call m (Call_SetDense i name) = snd (SetDense m i name)"
| "do_call m (Call_SetSparse i ind val) = snd (SetSparse m i ind val)"

definition run_calls :: "GradientMaker \<Rightarrow> call list \<Rightarrow> GradientMaker" where
  "run_calls m cs = foldl do_call m cs"

subsection \<open>Get and the built-in makers\<close>

text \<open>
  \<^verbatim>\<open>VerifyOp\<close> asks the schema registry, which is not part of the header: the lookup
  \<^verbatim>\<open>OpSchemaRegistry::Schema\<close> is the parameter \<open>Schema\<close> (a type name to the schema's
  \<^verbatim>\<open>Verify\<close>, or \<open>None\<close> for the null pointer) and \<^verbatim>\<open>ProtoDebugString\<close> is the
  parameter \<open>DebugString\<close>.
\<close>

definition VerifyOp ::
    "(string \<Rightarrow> (OperatorDef \<Rightarrow> bool) option) \<Rightarrow> (OperatorDef \<Rightarrow> string) \<Rightarrow>
     GradientMaker \<Rightarrow> error + unit" where
  "VerifyOp Schema DebugString m =
     (case Schema (op_type (def m)) of
        None \<Rightarrow> Inr ()
      | Some verify \<Rightarrow>
          if verify (def m) then Inr ()
          else Inl (EnforceNotMet
                 (''(GradientMaker) Operator def did not pass schema checking: '' @
                  DebugString (def m))))"

text \<open>
  \<^verbatim>\<open>Get\<close>: the virtual \<^verbatim>\<open>GetGradientDefs\<close> is the parameter \<open>GetGradientDefs\<close>; it may
  call the accessors, so it returns the maker it leaves behind.
\<close>

definition set_is_gradient_op :: "bool \<Rightarrow> OperatorDef \<Rightarrow> OperatorDef" where
  "set_is_gradient_op b opdef = opdef\<lparr>is_gradient_op := b\<rparr>"

definition Get ::
    "(string \<Rightarrow> (OperatorDef \<Rightarrow> bool) option) \<Rightarrow> (OperatorDef \<Rightarrow> string) \<Rightarrow>
     (GradientMaker \<Rightarrow> (error + OperatorDef list) \<times> GradientMaker) \<Rightarrow>
     GradientMaker \<Rightarrow> (error + GradientOpsMeta) \<times> GradientMaker" where
  "Get Schema DebugString GetGradientDefs m =
     (case VerifyOp Schema DebugString m of
        Inl e \<Rightarrow> (Inl e, m)
      | Inr u \<Rightarrow>
          (case GetGradientDefs m of
             (Inl e, m') \<Rightarrow> (Inl e, m')
           | (Inr new_defs, m') \<Rightarrow>
               (Inr \<lparr>ops = map (set_is_gradient_op True) new_defs,
                     g_input = GradientMaker.g_input m'\<rparr>, m')))"

definition GetGradientDefs_base ::
    "GradientMaker \<Rightarrow> (error + OperatorDef list) \<times> GradientMaker" where
  "GetGradientDefs_base m = (Inl NotImplemented, m)"

definition NoGradient_GetGradientDefs ::
    "GradientMaker \<Rightarrow> (error + OperatorDef list) \<times> GradientMaker" where
  "NoGradient_GetGradientDefs m = (Inr [], m)"

definition NoGradient_Get ::
    "(string \<Rightarrow> (OperatorDef \<Rightarrow> bool) option) \<Rightarrow> (OperatorDef \<Rightarrow> string) \<Rightarrow>
     GradientMaker \<Rightarrow> (error + GradientOpsMeta) \<times> GradientMaker" where
  "NoGradient_Get Schema DebugString m = Get Schema DebugString NoGradient_GetGradientDefs m"

definition ThrowInTheTowelIfGradientIsCalled_Get ::
    "GradientMaker \<Rightarrow> (error + GradientOpsMeta) \<times> GradientMaker" where
  "ThrowInTheTowelIfGradientIsCalled_Get m =
     (Inl (EnforceNotMet
        (''One should not call gradient for operator '' @ op_type (def m) @ ''.'')), m)"

definition GradientNotImplementedYet_Get ::
    "GradientMaker \<Rightarrow> (error + GradientOpsMeta) \<times> GradientMaker" where
  "GradientNotImplementedYet_Get m =
     (Inl (EnforceNotMet
        (''Operator '' @ op_type (def m) @
         '' should have a gradient but is not implemented yet.'')), m)"

subsection \<open>The exclusion invariant and example operators\<close>

text \<open>No wrapper of the list is dense and sparse at once.\<close>

definition exclusive :: "GradientWrapper list \<Rightarrow> bool" where
  "exclusive ws = list_all (\<lambda>w. \<not> (IsDense w \<and> IsSparse w)) ws"

definition relu :: OperatorDef where
  "relu = \<lparr>op_type = ''Relu'', op_input = [''X''], op_output = [''Y''], is_gradient_op = False\<rparr>"

definition gather :: OperatorDef where
  "gather = \<lparr>op_type = ''Gather'', op_input = [''DATA'', ''INDICES''],
      op_output = [''OUTPUT''], is_gradient_op = False\<rparr>"

definition gather_calls :: "call list" where
  "gather_calls = [Call_GI 0, Call_GI_I 0, Call_SetSparse 1 ''gi'' ''gv'', Call_SetDense 1 ''gd'',
      Call_GI_V (- 1)]"

text \<open>Wrappers as a caller supplies them.\<close>

definition dense_grad :: "string \<Rightarrow> GradientWrapper" where
  "dense_grad n = \<lparr>dense = n, indices = [], values = []\<rparr>"

definition sparse_grad :: "string \<Rightarrow> string \<Rightarrow> GradientWrapper" where
  "sparse_grad ind val = \<lparr>dense = [], indices = ind, values = val\<rparr>"

definition split3 :: OperatorDef where
  "split3 = \<lparr>op_type = ''Split'', op_input = [''X''], op_output = [''A'', ''B'', ''C''],
      is_gradient_op = False\<rparr>"

definition split3_grads :: "GradientWrapper list" where
  "split3_grads = [dense_grad ''A_grad'', sparse_grad ''B_i'' ''B_v'', empty_wrapper]"

text \<open>
  A schema registry that knows \<^verbatim>\<open>Relu\<close> only (one input, one output), and a \<^verbatim>\<open>Relu\<close>
  definition that it rejects.
\<close>

definition relu_schema :: "string \<Rightarrow> (OperatorDef \<Rightarrow> bool) option" where
  "relu_schema t =
     (if t = ''Relu'' then Some (\<lambda>d. length (op_input d) = 1 \<and> length (op_output d) = 1)
      else None)"

definition bad_relu :: OperatorDef where
  "bad_relu = \<lparr>op_type = ''Relu'', op_input = [''X'', ''Z''], op_output = [''Y''],
      is_gradient_op = False\<rparr>"

text \<open>
  A generator in the style the header's comment describes, for \<^verbatim>\<open>Relu\<close>: one gradient
  operator that reads \<^verbatim>\<open>O(0)\<close> and \<^verbatim>\<open>GO(0)\<close> and writes \<^verbatim>\<open>GI(0)\<close>.
\<close>

definition GetReluGradient ::
    "GradientMaker \<Rightarrow> (error + OperatorDef list) \<times> GradientMaker" where
  "GetReluGradient m =
     (case O_name m 0 of
        Inl e \<Rightarrow> (Inl e, m)
      | Inr y \<Rightarrow>
          (case GO m 0 of
             Inl e \<Rightarrow> (Inl e, m)
           | Inr gy \<Rightarrow>
               (case GI m 0 of
                  (Inl e, m') \<Rightarrow> (Inl e, m')
                | (Inr gx, m') \<Rightarrow>
                    (Inr [\<lparr>op_type = ''ReluGradient'', op_input = [y, gy], op_output = [gx],
                            is_gradient_op = False\<rparr>], m'))))"

section \<open>Properties\<close>

subsection \<open>Indices\<close>

lemma size_t_nonneg: "0 \<le> sint i \<Longrightarrow> size_t i = nat (sint i)"
proof -
  assume a: "0 \<le> sint i"
  have "sint i < 2 ^ 31" using sint_lt [of i] by simp
  then have "sint i < 2 ^ 64" by simp
  with a have "sint i mod 2 ^ 64 = sint i" by simp
  then show ?thesis by (simp add: size_t_def)
qed

lemma size_t_neg: "sint i < 0 \<Longrightarrow> vector_max_size < size_t i"
proof -
  assume a: "sint i < 0"
  have b: "- (2 ^ 31) \<le> sint i" using sint_ge [of i] by simp
  have "sint i mod 2 ^ 64 = (sint i + 2 ^ 64) mod 2 ^ 64" by simp
  also from a b have "\<dots> = sint i + 2 ^ 64" by (intro mod_pos_pos_trivial) simp_all
  finally have "sint i mod 2 ^ 64 = sint i + 2 ^ 64" .
  with b show ?thesis by (simp add: size_t_def vector_max_size_def)
qed

lemma vector_at_Inr: "vector_at v i = Inr w \<Longrightarrow> size_t i < length v \<and> w = v ! size_t i"
  by (auto simp: vector_at_def split: if_splits)

lemma vector_at_out_of_range:
  assumes "length v \<le> vector_max_size" and "\<not> (0 \<le> sint i \<and> sint i < int (length v))"
  shows "vector_at v i = Inl OutOfRange"
proof (cases "0 \<le> sint i")
  case True
  with assms(2) show ?thesis by (simp add: vector_at_def size_t_nonneg)
next
  case False
  then have "vector_max_size < size_t i" by (simp add: size_t_neg)
  with assms(1) show ?thesis by (simp add: vector_at_def)
qed

lemma repeated_get_Inr:
  "repeated_get xs i = Inr n \<Longrightarrow> 0 \<le> sint i \<and> nat (sint i) < length xs \<and> n = xs ! nat (sint i)"
  by (auto simp: repeated_get_def split: if_splits)

lemma I_name_Inr:
  "I_name m i = Inr N \<Longrightarrow> 0 \<le> sint i \<and> repeated_get (op_input (def m)) i = Inr N"
  by (auto simp: I_name_def split: if_splits)

subsection \<open>Dense and sparse exclude each other\<close>

lemma exclusive_update:
  "exclusive ws \<Longrightarrow> \<not> (IsDense w \<and> IsSparse w) \<Longrightarrow> exclusive (ws[k := w])"
  by (auto simp: exclusive_def list_all_iff dest!: set_update_subset_insert [THEN subsetD])

lemma exclusive_GI: "exclusive (g_input m) \<Longrightarrow> exclusive (g_input (snd (GI m i)))"
  by (auto simp: GI_def IsDense_def IsSparse_def GradientName_def
      split: sum.splits intro!: exclusive_update)

lemma exclusive_GI_I: "exclusive (g_input m) \<Longrightarrow> exclusive (g_input (snd (GI_I m i)))"
  by (auto simp: GI_I_def IsDense_def IsSparse_def split: sum.splits intro!: exclusive_update)

lemma exclusive_GI_V: "exclusive (g_input m) \<Longrightarrow> exclusive (g_input (snd (GI_V m i)))"
  by (auto simp: GI_V_def IsDense_def IsSparse_def split: sum.splits intro!: exclusive_update)

lemma exclusive_SetDense:
  "exclusive (g_input m) \<Longrightarrow> exclusive (g_input (snd (SetDense m i name)))"
  by (auto simp: SetDense_def IsDense_def IsSparse_def split: sum.splits
      intro!: exclusive_update)

lemma exclusive_SetSparse:
  "exclusive (g_input m) \<Longrightarrow> exclusive (g_input (snd (SetSparse m i ind val)))"
  by (auto simp: SetSparse_def IsDense_def IsSparse_def split: sum.splits
      intro!: exclusive_update)

lemma exclusive_do_call: "exclusive (g_input m) \<Longrightarrow> exclusive (g_input (do_call m c))"
  by (cases c) (simp_all add: exclusive_GI exclusive_GI_I exclusive_GI_V exclusive_SetDense
      exclusive_SetSparse)

lemma exclusive_run_calls: "exclusive (g_input m) \<Longrightarrow> exclusive (g_input (run_calls m cs))"
  unfolding run_calls_def by (induction cs arbitrary: m) (simp_all add: exclusive_do_call)

lemma exclusive_GradientMakerBase: "exclusive (g_input (GradientMakerBase d g))"
  by (simp add: GradientMakerBase_def exclusive_def list_all_iff empty_wrapper_def IsDense_def)

text \<open>The accessors never resize the list of input wrappers, nor touch the definition.\<close>

lemma length_GI: "length (g_input (snd (GI m i))) = length (g_input m)"
  by (simp add: GI_def split: sum.splits)

lemma length_GI_I: "length (g_input (snd (GI_I m i))) = length (g_input m)"
  by (simp add: GI_I_def split: sum.splits)

lemma length_GI_V: "length (g_input (snd (GI_V m i))) = length (g_input m)"
  by (simp add: GI_V_def split: sum.splits)

lemma length_SetDense: "length (g_input (snd (SetDense m i n))) = length (g_input m)"
  by (simp add: SetDense_def split: sum.splits)

lemma length_SetSparse: "length (g_input (snd (SetSparse m i a b))) = length (g_input m)"
  by (simp add: SetSparse_def split: sum.splits)

lemma length_do_call: "length (g_input (do_call m c)) = length (g_input m)"
  by (cases c) (simp_all add: length_GI length_GI_I length_GI_V length_SetDense length_SetSparse)

lemma length_run_calls: "length (g_input (run_calls m cs)) = length (g_input m)"
  unfolding run_calls_def by (induction cs arbitrary: m) (simp_all add: length_do_call)

lemma def_do_call: "def (do_call m c) = def m"
  by (cases c)
    (simp_all add: GI_def GI_I_def GI_V_def SetDense_def SetSparse_def split: sum.splits)

lemma def_run_calls: "def (run_calls m cs) = def m"
  unfolding run_calls_def by (induction cs arbitrary: m) (simp_all add: def_do_call)

text \<open>
  Claim C1. Take a maker as its constructor builds it, for any operator definition and any
  list of output gradients, and make any sequence of calls to \<^verbatim>\<open>GI\<close>, \<^verbatim>\<open>GI_I\<close>, \<^verbatim>\<open>GI_V\<close>,
  \<^verbatim>\<open>SetDense\<close> and \<^verbatim>\<open>SetSparse\<close>, with any arguments, each returning or throwing. Then
  every input index \<open>k\<close> still has a wrapper, and that wrapper is not dense and sparse at
  once.
\<close>

theorem dense_sparse_exclusive:
  assumes "k < length (op_input d)"
  shows "k < length (g_input (run_calls (GradientMakerBase d g) cs)) \<and>
         \<not> (IsDense (g_input (run_calls (GradientMakerBase d g) cs) ! k) \<and>
            IsSparse (g_input (run_calls (GradientMakerBase d g) cs) ! k))"
proof -
  let ?ws = "g_input (run_calls (GradientMakerBase d g) cs)"
  have len: "length ?ws = length (op_input d)"
    by (simp add: length_run_calls GradientMakerBase_def)
  have "exclusive ?ws"
    by (rule exclusive_run_calls) (rule exclusive_GradientMakerBase)
  with assms len show ?thesis
    by (simp add: exclusive_def list_all_length)
qed

lemma run_gather:
  "g_input (run_calls (GradientMakerBase gather []) gather_calls) =
     [\<lparr>dense = ''DATA_grad'', indices = [], values = []\<rparr>,
      \<lparr>dense = [], indices = ''gi'', values = ''gv''\<rparr>]"
  by (simp add: run_calls_def gather_calls_def GradientMakerBase_def gather_def GI_def GI_I_def
      GI_V_def SetDense_def SetSparse_def vector_at_def size_t_def repeated_get_def
      empty_wrapper_def IsDense_def IsSparse_def GradientName_def)

theorem dense_sparse_exclusive_witness:
  "(1::nat) < length (op_input gather) \<and>
   g_input (run_calls (GradientMakerBase gather []) gather_calls) ! 1 =
     \<lparr>dense = [], indices = ''gi'', values = ''gv''\<rparr> \<and>
   \<not> (IsDense (g_input (run_calls (GradientMakerBase gather []) gather_calls) ! 1) \<and>
      IsSparse (g_input (run_calls (GradientMakerBase gather []) gather_calls) ! 1))"
proof -
  have k: "(1::nat) < length (op_input gather)" by (simp add: gather_def)
  from dense_sparse_exclusive [OF k, of "[]" gather_calls] k show ?thesis
    by (simp add: run_gather)
qed

lemma g_output_do_call: "g_output (do_call m c) = g_output m"
  by (cases c)
    (simp_all add: GI_def GI_I_def GI_V_def SetDense_def SetSparse_def split: sum.splits)

lemma g_output_run_calls: "g_output (run_calls m cs) = g_output m"
  unfolding run_calls_def by (induction cs arbitrary: m) (simp_all add: g_output_do_call)

subsection \<open>Evaluating the examples\<close>

lemmas example_defs = GradientMakerBase_def relu_def vector_at_def size_t_def repeated_get_def
  empty_wrapper_def IsDense_def IsSparse_def IsEmpty_def GradientName_def GradientSliceIndices_def
  GradientSliceValues_def dense_grad_def sparse_grad_def split3_def bad_relu_def gather_def

lemma I_name_relu: "I_name (GradientMakerBase relu []) 0 = Inr ''X''"
  by (simp add: I_name_def example_defs)

lemma GI_relu:
  "GI (GradientMakerBase relu []) 0 =
     (Inr ''X_grad'', \<lparr>def = relu, g_output = [], g_input = [dense_grad ''X_grad'']\<rparr>)"
  by (simp add: GI_def example_defs)

lemma GI_I_relu:
  "GI_I (GradientMakerBase relu []) 0 =
     (Inr ''X_grad_indices'',
      \<lparr>def = relu, g_output = [], g_input = [sparse_grad ''X_grad_indices'' []]\<rparr>)"
  by (simp add: GI_I_def example_defs)

lemma GI_V_relu:
  "GI_V (GradientMakerBase relu []) 0 =
     (Inr ''X_grad_values'',
      \<lparr>def = relu, g_output = [], g_input = [sparse_grad [] ''X_grad_values'']\<rparr>)"
  by (simp add: GI_V_def example_defs)

lemma Get_relu:
  "Get (\<lambda>t. None) op_type GetReluGradient (GradientMakerBase relu [dense_grad ''Y_grad'']) =
     (Inr \<lparr>ops = [\<lparr>op_type = ''ReluGradient'', op_input = [''Y'', ''Y_grad''],
                   op_output = [''X_grad''], is_gradient_op = True\<rparr>],
           g_input = [dense_grad ''X_grad'']\<rparr>,
      \<lparr>def = relu, g_output = [dense_grad ''Y_grad''], g_input = [dense_grad ''X_grad'']\<rparr>)"
  by (simp add: Get_def VerifyOp_def GetReluGradient_def O_name_def GO_def GI_def
      set_is_gradient_op_def example_defs)

lemma VerifyOp_relu: "VerifyOp relu_schema op_type (GradientMakerBase relu []) = Inr ()"
  by (simp add: VerifyOp_def relu_schema_def GradientMakerBase_def relu_def)

subsection \<open>Matching gradient names to parameters\<close>

lemma foldl_match:
  "foldl (\<lambda>m out. if P out then m(out \<mapsto> f out) else m) m0 xs k =
     (if k \<in> set xs \<and> P k then Some (f k) else m0 k)"
  by (induction xs arbitrary: m0) auto

text \<open>
  What \<^verbatim>\<open>MatchGradsToParams\<close> computes: its keys are the outputs that \<^verbatim>\<open>IsGradientBlob\<close>
  accepts, each mapped to itself less its last five characters.
\<close>

lemma MatchGradsToParams_lookup:
  "MatchGradsToParams op out =
     (if out \<in> set (op_output op) \<and> IsGradientBlob out then Some (take (length out - 5) out)
      else None)"
  unfolding MatchGradsToParams_def by (simp add: foldl_match)

lemma find_from_Some:
  "find_from name s pos = Some k \<Longrightarrow> pos \<le> k \<and> take (length s) (drop (k - pos) name) = s"
proof (induction name arbitrary: pos)
  case Nil
  then show ?case by (auto split: if_splits)
next
  case (Cons c cs)
  show ?case
  proof (cases "take (length s) (c # cs) = s")
    case True
    with Cons.prems show ?thesis by simp
  next
    case False
    with Cons.prems have "find_from cs s (Suc pos) = Some k" by simp
    from Cons.IH [OF this] have "Suc pos \<le> k" and "take (length s) (drop (k - Suc pos) cs) = s"
      by simp_all
    moreover from \<open>Suc pos \<le> k\<close> have "k - pos = Suc (k - Suc pos)" by simp
    ultimately show ?thesis by simp
  qed
qed

text \<open>Every name that \<^verbatim>\<open>IsGradientBlob\<close> accepts is longer than five and ends in \<^verbatim>\<open>_grad\<close>.\<close>

lemma IsGradientBlob_suffix:
  "IsGradientBlob name \<Longrightarrow> length name > 5 \<and> drop (length name - 5) name = ''_grad''"
proof -
  assume a: "IsGradientBlob name"
  then have l: "length name > 5" and f: "find_from name ''_grad'' 0 = Some (length name - 5)"
    by (simp_all add: IsGradientBlob_def find_str_def)
  from find_from_Some [OF f] have "take 5 (drop (length name - 5) name) = ''_grad''" by simp
  with l show ?thesis by simp
qed

text \<open>The example of the specification: outputs \<^verbatim>\<open>W_grad\<close> and \<^verbatim>\<open>b\<close>.\<close>

lemma MatchGradsToParams_W_grad_b:
  "MatchGradsToParams \<lparr>op_type = ''FC'', op_input = [], op_output = [''W_grad'', ''b''],
     is_gradient_op = True\<rparr> = [''W_grad'' \<mapsto> ''W'']"
  by (simp add: MatchGradsToParams_def IsGradientBlob_def find_str_def)

text \<open>
  Claim C2 says that the keys of \<^verbatim>\<open>MatchGradsToParams\<close> are exactly the outputs longer than
  five characters that end in \<^verbatim>\<open>_grad\<close>. The code compares the position of the first
  occurrence of \<^verbatim>\<open>_grad\<close> with the length less five, so a name in which \<^verbatim>\<open>_grad\<close> occurs
  before its suffix is not a key: \<^verbatim>\<open>W_grad_grad\<close>, the name \<^verbatim>\<open>GradientName\<close> gives to the
  gradient of \<^verbatim>\<open>W_grad\<close>, is longer than five and ends in \<^verbatim>\<open>_grad\<close>, yet
  \<^verbatim>\<open>IsGradientBlob\<close> rejects it and the map for an operator with that one output is empty.
\<close>

theorem MatchGradsToParams_first_occurrence:
  "GradientName ''W_grad'' = ''W_grad_grad'' \<and>
   length ''W_grad_grad'' > 5 \<and>
   drop (length ''W_grad_grad'' - 5) ''W_grad_grad'' = ''_grad'' \<and>
   \<not> IsGradientBlob ''W_grad_grad'' \<and>
   MatchGradsToParams \<lparr>op_type = ''FC'', op_input = [], op_output = [''W_grad_grad''],
     is_gradient_op = True\<rparr> = Map.empty"
  by (simp add: MatchGradsToParams_def IsGradientBlob_def find_str_def GradientName_def)

subsection \<open>Names recorded by GI, GI\_I and GI\_V\<close>

text \<open>
  Claim C3. On a maker whose forward input \<open>i\<close> is named \<open>N\<close> (\<^verbatim>\<open>I(i)\<close> returns \<open>N\<close>),
  a call of \<^verbatim>\<open>GI(i)\<close> that returns, returns \<open>N\<close> followed by \<^verbatim>\<open>_grad\<close> and leaves that
  string in the dense field of slot \<open>i\<close>; \<^verbatim>\<open>GI_I(i)\<close> and \<^verbatim>\<open>GI_V(i)\<close> do the same with
  \<^verbatim>\<open>_grad_indices\<close> and the indices field, \<^verbatim>\<open>_grad_values\<close> and the values field.
\<close>

theorem GI_names:
  assumes "I_name m i = Inr N"
  shows "(\<forall>s m'. GI m i = (Inr s, m') \<longrightarrow>
            s = N @ ''_grad'' \<and> dense (g_input m' ! nat (sint i)) = N @ ''_grad'') \<and>
         (\<forall>s m'. GI_I m i = (Inr s, m') \<longrightarrow>
            s = N @ ''_grad_indices'' \<and>
            indices (g_input m' ! nat (sint i)) = N @ ''_grad_indices'') \<and>
         (\<forall>s m'. GI_V m i = (Inr s, m') \<longrightarrow>
            s = N @ ''_grad_values'' \<and>
            values (g_input m' ! nat (sint i)) = N @ ''_grad_values'')"
proof -
  from assms have nn: "0 \<le> sint i" and rg: "repeated_get (op_input (def m)) i = Inr N"
    by (simp_all add: I_name_Inr)
  from nn have st: "size_t i = nat (sint i)" by (rule size_t_nonneg)
  have a: "\<forall>s m'. GI m i = (Inr s, m') \<longrightarrow>
            s = N @ ''_grad'' \<and> dense (g_input m' ! nat (sint i)) = N @ ''_grad''"
    using rg st by (auto simp: GI_def GradientName_def split: sum.splits if_splits
        dest!: vector_at_Inr)
  have b: "\<forall>s m'. GI_I m i = (Inr s, m') \<longrightarrow>
            s = N @ ''_grad_indices'' \<and>
            indices (g_input m' ! nat (sint i)) = N @ ''_grad_indices''"
    using rg st by (auto simp: GI_I_def GradientSliceIndices_def split: sum.splits if_splits
        dest!: vector_at_Inr)
  have c: "\<forall>s m'. GI_V m i = (Inr s, m') \<longrightarrow>
            s = N @ ''_grad_values'' \<and>
            values (g_input m' ! nat (sint i)) = N @ ''_grad_values''"
    using rg st by (auto simp: GI_V_def GradientSliceValues_def split: sum.splits if_splits
        dest!: vector_at_Inr)
  from a b c show ?thesis by blast
qed

theorem GI_names_witness:
  "I_name (GradientMakerBase relu []) 0 = Inr ''X'' \<and>
   fst (GI (GradientMakerBase relu []) 0) = Inr ''X_grad'' \<and>
   dense (g_input (snd (GI (GradientMakerBase relu []) 0)) ! 0) = ''X_grad'' \<and>
   fst (GI_I (GradientMakerBase relu []) 0) = Inr ''X_grad_indices'' \<and>
   indices (g_input (snd (GI_I (GradientMakerBase relu []) 0)) ! 0) = ''X_grad_indices'' \<and>
   fst (GI_V (GradientMakerBase relu []) 0) = Inr ''X_grad_values'' \<and>
   values (g_input (snd (GI_V (GradientMakerBase relu []) 0)) ! 0) = ''X_grad_values''"
  using GI_names [OF I_name_relu] by (simp add: I_name_relu GI_relu GI_I_relu GI_V_relu)

subsection \<open>A dense slot refuses the sparse writers\<close>

text \<open>
  Claim C4. When \<^verbatim>\<open>GI(i)\<close> has returned, the index is a valid input index, named \<open>N\<close>,
  and a following \<^verbatim>\<open>GI_I(i)\<close> or \<^verbatim>\<open>GI_V(i)\<close> on the same maker throws the enforce failure
  \<^verbatim>\<open>Input N already set to dense.\<close> and leaves the maker as \<^verbatim>\<open>GI\<close> left it: slot \<open>i\<close> is
  dense, not sparse, holds \<open>N\<close> followed by \<^verbatim>\<open>_grad\<close>, and its indices and values are
  empty.
\<close>

theorem GI_then_sparse_conflict:
  assumes "GI m i = (Inr s, m')"
  shows "\<exists>N. I_name m i = Inr N \<and>
           GI_I m' i = (Inl (EnforceNotMet (''Input '' @ N @ '' already set to dense.'')), m') \<and>
           GI_V m' i = (Inl (EnforceNotMet (''Input '' @ N @ '' already set to dense.'')), m') \<and>
           IsDense (g_input m' ! nat (sint i)) \<and> \<not> IsSparse (g_input m' ! nat (sint i)) \<and>
           dense (g_input m' ! nat (sint i)) = N @ ''_grad'' \<and>
           indices (g_input m' ! nat (sint i)) = [] \<and> values (g_input m' ! nat (sint i)) = []"
proof -
  from assms obtain w n where
    at: "vector_at (g_input m) i = Inr w" and rg: "repeated_get (op_input (def m)) i = Inr n"
    and ns: "\<not> IsSparse w"
    and m': "m' = m\<lparr>g_input := (g_input m)[size_t i := w\<lparr>dense := GradientName n\<rparr>]\<rparr>"
    by (auto simp: GI_def split: sum.splits if_splits)
  from rg have nn: "0 \<le> sint i" and lt: "nat (sint i) < length (op_input (def m))"
    by (simp_all add: repeated_get_Inr)
  from nn have st: "size_t i = nat (sint i)" by (rule size_t_nonneg)
  from vector_at_Inr [OF at] st have k: "nat (sint i) < length (g_input m)" by simp
  from nn lt rg have I: "I_name m i = Inr n" by (simp add: I_name_def)
  have slot: "g_input m' ! nat (sint i) = w\<lparr>dense := GradientName n\<rparr>"
    using m' st k by simp
  have at': "vector_at (g_input m') i = Inr (w\<lparr>dense := GradientName n\<rparr>)"
    using m' st k by (simp add: vector_at_def)
  have d: "IsDense (w\<lparr>dense := GradientName n\<rparr>)" by (simp add: IsDense_def GradientName_def)
  have def': "def m' = def m" using m' by simp
  have gi: "GI_I m' i = (Inl (EnforceNotMet (''Input '' @ n @ '' already set to dense.'')), m')"
    using at' rg d def' by (simp add: GI_I_def)
  have gv: "GI_V m' i = (Inl (EnforceNotMet (''Input '' @ n @ '' already set to dense.'')), m')"
    using at' rg d def' by (simp add: GI_V_def)
  from ns have "indices w = []" and "values w = []" by (simp_all add: IsSparse_def)
  with I gi gv d slot ns show ?thesis
    by (simp add: IsSparse_def GradientName_def)
qed

theorem GI_then_sparse_conflict_witness:
  "GI (GradientMakerBase relu []) 0 =
     (Inr ''X_grad'', \<lparr>def = relu, g_output = [], g_input = [dense_grad ''X_grad'']\<rparr>) \<and>
   GI_I \<lparr>def = relu, g_output = [], g_input = [dense_grad ''X_grad'']\<rparr> 0 =
     (Inl (EnforceNotMet ''Input X already set to dense.''),
      \<lparr>def = relu, g_output = [], g_input = [dense_grad ''X_grad'']\<rparr>) \<and>
   GI_V \<lparr>def = relu, g_output = [], g_input = [dense_grad ''X_grad'']\<rparr> 0 =
     (Inl (EnforceNotMet ''Input X already set to dense.''),
      \<lparr>def = relu, g_output = [], g_input = [dense_grad ''X_grad'']\<rparr>)"
  using GI_then_sparse_conflict [OF GI_relu] by (simp add: I_name_relu GI_relu)

subsection \<open>Reading the output gradients\<close>

text \<open>
  Claim C5. Let \<open>i\<close> be a valid output index, the output being named \<open>n\<close>, and let \<open>w\<close>
  be the wrapper the caller supplied for it. Then \<^verbatim>\<open>GO(i)\<close> returns exactly when \<open>w\<close> is
  dense, and it returns the dense name of \<open>w\<close>; when \<open>w\<close> is not dense it throws, with
  the message \<^verbatim>\<open>Gradient of output n is sparse (expected dense).\<close> for a sparse \<open>w\<close> and
  \<^verbatim>\<open>Gradient of output n is not provided!\<close> for an empty one.
\<close>

theorem GO_dense_or_fails:
  assumes "0 \<le> sint i" and "nat (sint i) < length (op_output (def m))"
    and "nat (sint i) < length (g_output m)"
    and "w = g_output m ! nat (sint i)" and "n = op_output (def m) ! nat (sint i)"
  shows "(IsDense w \<longrightarrow> GO m i = Inr (dense w)) \<and>
         (\<not> IsDense w \<and> IsSparse w \<longrightarrow>
            GO m i = Inl (EnforceNotMet
              (''Gradient of output '' @ n @ '' is sparse (expected dense).''))) \<and>
         (IsEmpty w \<longrightarrow>
            GO m i = Inl (EnforceNotMet (''Gradient of output '' @ n @ '' is not provided!''))) \<and>
         ((\<exists>s. GO m i = Inr s) \<longleftrightarrow> IsDense w)"
proof -
  from assms(1) have st: "size_t i = nat (sint i)" by (rule size_t_nonneg)
  with assms(3,4) have at: "vector_at (g_output m) i = Inr w" by (simp add: vector_at_def)
  from assms(1,2,5) have rg: "repeated_get (op_output (def m)) i = Inr n"
    by (simp add: repeated_get_def)
  show ?thesis using at rg by (auto simp: GO_def IsEmpty_def)
qed

theorem GO_dense_or_fails_witness:
  "GO (GradientMakerBase split3 split3_grads) 0 = Inr ''A_grad'' \<and>
   GO (GradientMakerBase split3 split3_grads) 1 =
     Inl (EnforceNotMet ''Gradient of output B is sparse (expected dense).'') \<and>
   GO (GradientMakerBase split3 split3_grads) 2 =
     Inl (EnforceNotMet ''Gradient of output C is not provided!'')"
proof -
  let ?m = "GradientMakerBase split3 split3_grads"
  have out: "op_output (def ?m) = [''A'', ''B'', ''C'']" and g: "g_output ?m = split3_grads"
    by (simp_all add: GradientMakerBase_def split3_def)
  have n: "length split3_grads = 3" "split3_grads ! 0 = dense_grad ''A_grad''"
    "split3_grads ! Suc 0 = sparse_grad ''B_i'' ''B_v''" "split3_grads ! 2 = empty_wrapper"
    by (simp_all add: split3_grads_def)
  have a: "IsDense (dense_grad ''A_grad'')"
    by (simp add: IsDense_def dense_grad_def)
  have b: "\<not> IsDense (sparse_grad ''B_i'' ''B_v'') \<and> IsSparse (sparse_grad ''B_i'' ''B_v'')"
    by (simp add: IsDense_def IsSparse_def sparse_grad_def)
  have c: "IsEmpty empty_wrapper"
    by (simp add: IsEmpty_def IsDense_def IsSparse_def empty_wrapper_def)
  have "IsDense (dense_grad ''A_grad'') \<longrightarrow> GO ?m 0 = Inr (dense (dense_grad ''A_grad''))"
    by (rule GO_dense_or_fails [of 0 ?m "dense_grad ''A_grad''" "''A''", THEN conjunct1])
      (simp_all add: out g n)
  with a have t0: "GO ?m 0 = Inr (dense (dense_grad ''A_grad''))" by (rule rev_mp)
  have "\<not> IsDense (sparse_grad ''B_i'' ''B_v'') \<and> IsSparse (sparse_grad ''B_i'' ''B_v'') \<longrightarrow>
      GO ?m 1 = Inl (EnforceNotMet
        (''Gradient of output '' @ ''B'' @ '' is sparse (expected dense).''))"
    by (rule GO_dense_or_fails [of 1 ?m "sparse_grad ''B_i'' ''B_v''" "''B''",
          THEN conjunct2, THEN conjunct1])
      (simp_all add: out g n)
  with b have t1: "GO ?m 1 = Inl (EnforceNotMet
      (''Gradient of output '' @ ''B'' @ '' is sparse (expected dense).''))" by (rule rev_mp)
  have "IsEmpty empty_wrapper \<longrightarrow>
      GO ?m 2 = Inl (EnforceNotMet (''Gradient of output '' @ ''C'' @ '' is not provided!''))"
    by (rule GO_dense_or_fails [of 2 ?m empty_wrapper "''C''",
          THEN conjunct2, THEN conjunct2, THEN conjunct1])
      (simp_all add: out g n)
  with c have t2: "GO ?m 2 = Inl (EnforceNotMet
      (''Gradient of output '' @ ''C'' @ '' is not provided!''))" by (rule rev_mp)
  from t0 t1 t2 show ?thesis by (simp add: dense_grad_def)
qed

text \<open>
  Claim C10. \<^verbatim>\<open>IsSparse\<close> is a disjunction, so a supplied wrapper with a values name
  and no indices name passes the check of \<^verbatim>\<open>GO_I\<close>, which returns the empty indices
  name; and one with an indices name and no values name passes the check of \<^verbatim>\<open>GO_V\<close>,
  which returns the empty values name.
\<close>

theorem GO_I_GO_V_half_sparse:
  assumes "0 \<le> sint i" and "nat (sint i) < length (g_output m)"
    and "w = g_output m ! nat (sint i)"
  shows "(indices w = [] \<and> values w \<noteq> [] \<longrightarrow> GO_I m i = Inr []) \<and>
         (values w = [] \<and> indices w \<noteq> [] \<longrightarrow> GO_V m i = Inr [])"
proof -
  from assms(1) have st: "size_t i = nat (sint i)" by (rule size_t_nonneg)
  with assms(2,3) have at: "vector_at (g_output m) i = Inr w" by (simp add: vector_at_def)
  then show ?thesis by (auto simp: GO_I_def GO_V_def IsSparse_def)
qed

theorem GO_I_GO_V_half_sparse_witness:
  "GO_I (GradientMakerBase split3 [sparse_grad [] ''A_v'', sparse_grad ''B_i'' []]) 0 = Inr [] \<and>
   GO_V (GradientMakerBase split3 [sparse_grad [] ''A_v'', sparse_grad ''B_i'' []]) 1 = Inr []"
  using
    GO_I_GO_V_half_sparse [of 0 "GradientMakerBase split3
      [sparse_grad [] ''A_v'', sparse_grad ''B_i'' []]" "sparse_grad [] ''A_v''"]
    GO_I_GO_V_half_sparse [of 1 "GradientMakerBase split3
      [sparse_grad [] ''A_v'', sparse_grad ''B_i'' []]" "sparse_grad ''B_i'' []"]
  by (simp add: example_defs)

subsection \<open>Get\<close>

text \<open>
  Claim C6. When the base \<^verbatim>\<open>Get\<close> returns a meta, the generator returned a list of
  definitions; the meta's operators are those definitions, in order, each with its
  gradient flag set and nothing else changed; every operator of the meta has the flag
  set; and the meta's wrappers are the input wrappers of the maker as the generator left
  it.
\<close>

theorem Get_marks_and_pairs:
  assumes "Get Schema DebugString GetGradientDefs m = (Inr meta, m')"
  shows "\<exists>new_defs. GetGradientDefs m = (Inr new_defs, m') \<and>
           ops meta = map (\<lambda>opdef. opdef\<lparr>is_gradient_op := True\<rparr>) new_defs \<and>
           GradientOpsMeta.g_input meta = g_input m' \<and>
           (\<forall>opdef \<in> set (ops meta). is_gradient_op opdef)"
  using assms
  by (auto simp: Get_def set_is_gradient_op_def split: sum.splits prod.splits)

theorem Get_marks_and_pairs_witness:
  "fst (GetReluGradient (GradientMakerBase relu [dense_grad ''Y_grad''])) =
     Inr [\<lparr>op_type = ''ReluGradient'', op_input = [''Y'', ''Y_grad''],
           op_output = [''X_grad''], is_gradient_op = False\<rparr>] \<and>
   fst (Get (\<lambda>t. None) op_type GetReluGradient (GradientMakerBase relu [dense_grad ''Y_grad''])) =
     Inr \<lparr>ops = [\<lparr>op_type = ''ReluGradient'', op_input = [''Y'', ''Y_grad''],
                   op_output = [''X_grad''], is_gradient_op = True\<rparr>],
           g_input = [dense_grad ''X_grad'']\<rparr>"
  using Get_marks_and_pairs [OF Get_relu]
  by (simp add: Get_relu) (simp add: GetReluGradient_def O_name_def GO_def GI_def example_defs)

text \<open>
  Claim C7 says that \<^verbatim>\<open>Get\<close> of the no-gradient maker returns for any operator definition.
  It runs \<^verbatim>\<open>VerifyOp\<close> first, as the base \<^verbatim>\<open>Get\<close> does, and throws when a schema is
  registered for the operator's type and rejects the definition: here a \<^verbatim>\<open>Relu\<close> with two
  inputs.
\<close>

theorem NoGradient_Get_unverified:
  "fst (NoGradient_Get relu_schema op_type (GradientMakerBase bad_relu [])) =
     Inl (EnforceNotMet ''(GradientMaker) Operator def did not pass schema checking: Relu'')"
  by (simp add: NoGradient_Get_def Get_def VerifyOp_def relu_schema_def example_defs)

text \<open>
  Claim C7, amended. For any operator definition that passes \<^verbatim>\<open>VerifyOp\<close> (no schema is
  registered for its type, or the schema accepts it) and any list of output gradients,
  \<^verbatim>\<open>Get\<close> of the no-gradient maker returns a meta with no operator and with as many
  wrappers as the operator has inputs, every one empty.
\<close>

theorem NoGradient_Get_verified:
  assumes "VerifyOp Schema DebugString (GradientMakerBase d g) = Inr ()"
  shows "\<exists>meta. fst (NoGradient_Get Schema DebugString (GradientMakerBase d g)) = Inr meta \<and>
           ops meta = [] \<and>
           length (GradientOpsMeta.g_input meta) = length (op_input d) \<and>
           list_all IsEmpty (GradientOpsMeta.g_input meta)"
  using assms
  by (simp add: NoGradient_Get_def Get_def NoGradient_GetGradientDefs_def GradientMakerBase_def
      IsEmpty_def IsDense_def IsSparse_def empty_wrapper_def list_all_iff)

theorem NoGradient_Get_verified_witness:
  "VerifyOp relu_schema op_type (GradientMakerBase relu []) = Inr () \<and>
   fst (NoGradient_Get relu_schema op_type (GradientMakerBase relu [])) =
     Inr \<lparr>ops = [], g_input = [empty_wrapper]\<rparr>"
proof -
  from NoGradient_Get_verified [OF VerifyOp_relu] obtain meta where
    "fst (NoGradient_Get relu_schema op_type (GradientMakerBase relu [])) = Inr meta"
    and "ops meta = []"
    and "length (GradientOpsMeta.g_input meta) = length (op_input relu)"
    and "list_all IsEmpty (GradientOpsMeta.g_input meta)"
    by blast
  have "fst (NoGradient_Get relu_schema op_type (GradientMakerBase relu [])) =
     Inr \<lparr>ops = [], g_input = [empty_wrapper]\<rparr>"
    by (simp add: NoGradient_Get_def Get_def VerifyOp_relu NoGradient_GetGradientDefs_def)
      (simp add: GradientMakerBase_def relu_def)
  with VerifyOp_relu show ?thesis by simp
qed

text \<open>
  Claim C8. For every operator definition and every list of output gradients, \<^verbatim>\<open>Get\<close> of
  the forbidden-gradient maker and \<^verbatim>\<open>Get\<close> of the not-implemented-yet maker throw, each an
  enforce failure whose message names the operator's type, and the two failures differ.
\<close>

theorem trivial_makers_always_fail:
  "ThrowInTheTowelIfGradientIsCalled_Get (GradientMakerBase d g) =
     (Inl (EnforceNotMet (''One should not call gradient for operator '' @ op_type d @ ''.'')),
      GradientMakerBase d g) \<and>
   GradientNotImplementedYet_Get (GradientMakerBase d g) =
     (Inl (EnforceNotMet
        (''Operator '' @ op_type d @ '' should have a gradient but is not implemented yet.'')),
      GradientMakerBase d g) \<and>
   fst (ThrowInTheTowelIfGradientIsCalled_Get (GradientMakerBase d g)) \<noteq>
   fst (GradientNotImplementedYet_Get (GradientMakerBase d g))"
  by (simp add: ThrowInTheTowelIfGradientIsCalled_Get_def GradientNotImplementedYet_Get_def
      GradientMakerBase_def)

subsection \<open>Indices out of range\<close>

text \<open>
  Each accessor checks its index against the list it reads: \<^verbatim>\<open>I\<close> and \<^verbatim>\<open>O\<close> against the
  inputs and outputs of the definition, the writers against the maker's input wrappers
  (as many as the inputs), and \<^verbatim>\<open>GO\<close>, \<^verbatim>\<open>GO_I\<close>, \<^verbatim>\<open>GO_V\<close>, \<^verbatim>\<open>GradOut\<close> against the list
  \<open>g\<close> of output gradients the maker was built with.
\<close>

lemma accessors_checked_against_lists:
  assumes "length (op_input d) \<le> vector_max_size" and "length g \<le> vector_max_size"
    and "m = run_calls (GradientMakerBase d g) cs"
  shows "(\<not> (0 \<le> sint i \<and> sint i < int (length (op_input d))) \<longrightarrow>
            I_name m i = Inl (EnforceNotMet []) \<and>
            GI m i = (Inl OutOfRange, m) \<and> GI_I m i = (Inl OutOfRange, m) \<and>
            GI_V m i = (Inl OutOfRange, m) \<and> SetDense m i name = (Inl OutOfRange, m) \<and>
            SetSparse m i ind val = (Inl OutOfRange, m)) \<and>
         (\<not> (0 \<le> sint i \<and> sint i < int (length (op_output d))) \<longrightarrow>
            O_name m i = Inl (EnforceNotMet [])) \<and>
         (\<not> (0 \<le> sint i \<and> sint i < int (length g)) \<longrightarrow>
            GO m i = Inl OutOfRange \<and> GO_I m i = Inl OutOfRange \<and>
            GO_V m i = Inl OutOfRange \<and> GradOut m i = Inl OutOfRange)"
proof -
  have d: "def m = d" using assms(3) by (simp add: def_run_calls GradientMakerBase_def)
  have go: "g_output m = g"
    using assms(3) by (simp add: g_output_run_calls GradientMakerBase_def)
  have gi: "length (g_input m) = length (op_input d)"
    using assms(3) by (simp add: length_run_calls GradientMakerBase_def)
  have a: "\<not> (0 \<le> sint i \<and> sint i < int (length (op_input d))) \<Longrightarrow>
           vector_at (g_input m) i = Inl OutOfRange"
    using assms(1) gi by (intro vector_at_out_of_range) simp_all
  have b: "\<not> (0 \<le> sint i \<and> sint i < int (length g)) \<Longrightarrow>
           vector_at (g_output m) i = Inl OutOfRange"
    using assms(2) go by (intro vector_at_out_of_range) simp_all
  have 1: "\<not> (0 \<le> sint i \<and> sint i < int (length (op_input d))) \<longrightarrow>
            I_name m i = Inl (EnforceNotMet []) \<and>
            GI m i = (Inl OutOfRange, m) \<and> GI_I m i = (Inl OutOfRange, m) \<and>
            GI_V m i = (Inl OutOfRange, m) \<and> SetDense m i name = (Inl OutOfRange, m) \<and>
            SetSparse m i ind val = (Inl OutOfRange, m)"
    using a d by (auto simp: I_name_def GI_def GI_I_def GI_V_def SetDense_def SetSparse_def)
  have 2: "\<not> (0 \<le> sint i \<and> sint i < int (length (op_output d))) \<longrightarrow>
            O_name m i = Inl (EnforceNotMet [])"
    using d by (auto simp: O_name_def)
  have 3: "\<not> (0 \<le> sint i \<and> sint i < int (length g)) \<longrightarrow>
            GO m i = Inl OutOfRange \<and> GO_I m i = Inl OutOfRange \<and>
            GO_V m i = Inl OutOfRange \<and> GradOut m i = Inl OutOfRange"
    using b by (auto simp: GO_def GO_I_def GO_V_def GradOut_def)
  from 1 2 3 show ?thesis by blast
qed

text \<open>
  Claim C9. Let \<open>m\<close> be a maker built by the constructor from a definition \<open>d\<close> and a
  list \<open>g\<close> of output gradients aligned with the outputs of \<open>d\<close> (one wrapper for each
  output), after any sequence of writing calls; the inputs and outputs are no more than a
  vector can hold. For an index \<open>i\<close>, negative or not:
  outside the input count, \<^verbatim>\<open>I\<close> fails its enforce check and \<^verbatim>\<open>GI\<close>, \<^verbatim>\<open>GI_I\<close>, \<^verbatim>\<open>GI_V\<close>,
  \<^verbatim>\<open>SetDense\<close>, \<^verbatim>\<open>SetSparse\<close> throw \<^verbatim>\<open>out_of_range\<close> and leave the maker as it was;
  outside the output count, \<^verbatim>\<open>O\<close> fails its enforce check and \<^verbatim>\<open>GO\<close>, \<^verbatim>\<open>GO_I\<close>,
  \<^verbatim>\<open>GO_V\<close>, \<^verbatim>\<open>GradOut\<close> throw \<^verbatim>\<open>out_of_range\<close>. No accessor returns a value, and none
  reaches the unchecked read of a repeated field.
\<close>

theorem accessors_range_checked:
  assumes "length (op_input d) \<le> vector_max_size"
    and "length (op_output d) \<le> vector_max_size"
    and "length g = length (op_output d)"
    and "m = run_calls (GradientMakerBase d g) cs"
  shows "(\<not> (0 \<le> sint i \<and> sint i < int (length (op_input d))) \<longrightarrow>
            I_name m i = Inl (EnforceNotMet []) \<and>
            GI m i = (Inl OutOfRange, m) \<and> GI_I m i = (Inl OutOfRange, m) \<and>
            GI_V m i = (Inl OutOfRange, m) \<and> SetDense m i name = (Inl OutOfRange, m) \<and>
            SetSparse m i ind val = (Inl OutOfRange, m)) \<and>
         (\<not> (0 \<le> sint i \<and> sint i < int (length (op_output d))) \<longrightarrow>
            O_name m i = Inl (EnforceNotMet []) \<and>
            GO m i = Inl OutOfRange \<and> GO_I m i = Inl OutOfRange \<and>
            GO_V m i = Inl OutOfRange \<and> GradOut m i = Inl OutOfRange)"
proof -
  from assms(2,3) have g: "length g \<le> vector_max_size" by simp
  from accessors_checked_against_lists [OF assms(1) g assms(4), of i name ind val] assms(3)
  show ?thesis by simp
qed

theorem accessors_range_checked_witness:
  "I_name (run_calls (GradientMakerBase gather [dense_grad ''OUTPUT_grad'']) gather_calls) (- 1) =
     Inl (EnforceNotMet []) \<and>
   O_name (run_calls (GradientMakerBase gather [dense_grad ''OUTPUT_grad'']) gather_calls) 1 =
     Inl (EnforceNotMet []) \<and>
   fst (GI (run_calls (GradientMakerBase gather [dense_grad ''OUTPUT_grad'']) gather_calls) (- 1)) =
     Inl OutOfRange \<and>
   fst (SetSparse (run_calls (GradientMakerBase gather [dense_grad ''OUTPUT_grad'']) gather_calls)
     2 ''i'' ''v'') = Inl OutOfRange \<and>
   GO (run_calls (GradientMakerBase gather [dense_grad ''OUTPUT_grad'']) gather_calls) 1 =
     Inl OutOfRange \<and>
   GO_I (run_calls (GradientMakerBase gather [dense_grad ''OUTPUT_grad'']) gather_calls) (- 1) =
     Inl OutOfRange \<and>
   GradOut (run_calls (GradientMakerBase gather [dense_grad ''OUTPUT_grad'']) gather_calls) (- 1) =
     Inl OutOfRange"
proof -
  let ?g = "[dense_grad ''OUTPUT_grad'']"
  let ?m = "run_calls (GradientMakerBase gather ?g) gather_calls"
  have li: "length (op_input gather) = 2" and lo: "length (op_output gather) = 1"
    by (simp_all add: gather_def)
  have h1: "length (op_input gather) \<le> vector_max_size"
    and h2: "length (op_output gather) \<le> vector_max_size"
    and h3: "length ?g = length (op_output gather)"
    by (simp_all add: gather_def vector_max_size_def)
  note t = accessors_range_checked [OF h1 h2 h3 refl, where cs = gather_calls]
  from t [where i = "- 1"] have a: "I_name ?m (- 1) = Inl (EnforceNotMet [])"
    and b: "GI ?m (- 1) = (Inl OutOfRange, ?m)"
    and f: "GO_I ?m (- 1) = Inl OutOfRange"
    and h: "GradOut ?m (- 1) = Inl OutOfRange"
    by (simp_all add: li lo)
  from t [where i = 1] have c: "O_name ?m 1 = Inl (EnforceNotMet [])"
    and e: "GO ?m 1 = Inl OutOfRange"
    by (simp_all add: lo)
  from t [where i = 2 and ind = "''i''" and val = "''v''"]
  have d: "SetSparse ?m 2 ''i'' ''v'' = (Inl OutOfRange, ?m)"
    by (simp add: li)
  from a b c d e f h show ?thesis by simp
qed

end
